theory Spec2Isabelle
  imports Complex_Main
begin

section \<open>Data model\<close>

text \<open>
  The model follows the component \<^verbatim>\<open>App\<close> of \<^verbatim>\<open>src/App.tsx\<close> in its current
  form (lines 686-1776: location gate, demo mode, live map); the first form of the same
  component (lines 1-685) is referred to where a claim cites it. The \<^verbatim>\<open>userLocation\<close> cell and
  \<^verbatim>\<open>getUserLocation\<close>, which only centre the map, are left out.
\<close>

datatype Screen =
  SChecking | SBlocked | SSplash | SOnboarding | SMap | SDestination | SProviders | SConfirmation

record Hotspot =
  h_id :: int
  h_name :: string
  h_latitude :: real
  h_longitude :: real
  provider_count :: int
  status :: string

record LatLng =
  lat :: real
  lng :: real

record RoutePoint = LatLng +
  rp_name :: string

record Provider =
  p_id :: string
  p_name :: string
  vehicle_number :: string
  p_latitude :: real
  p_longitude :: real
  seats_available :: int
  rating :: real
  is_online :: bool
  current_route :: "(RoutePoint \<times> RoutePoint) option"

text \<open>
  What the component does to the outside world, in the order it does it: console output
  (the constant text and, for errors, the error's message), calls of the geolocation API,
  writes to the durable store, calls of \<^verbatim>\<open>setLoading\<close>, and the location writes of the
  movement simulation (provider id, new latitude, new longitude).
\<close>

datatype Effect =
    ConsoleLog string
  | ConsoleError string string
  | GeoRequest
  | StorageSet string string
  | StorageRemove string
  | SetLoading bool
  | DbUpdate string real real

text \<open>
  The page's surroundings, fixed for one page load: the value of the \<^verbatim>\<open>demo\<close> query
  parameter (\<^verbatim>\<open>urlParams.get('demo')\<close>, \<^verbatim>\<open>null\<close> as \<open>None\<close>) and whether
  \<^verbatim>\<open>'geolocation' in navigator\<close> holds.
\<close>

record Env =
  demoParam :: "string option"
  hasGeolocation :: bool

text \<open>
  The answer of \<^verbatim>\<open>getCurrentPosition\<close>: a position, or an error with its code
  (1 permission denied, 2 position unavailable, 3 timeout) and message.
\<close>

datatype GeoOutcome = GeoPosition real real | GeoFailure nat string

text \<open>
  The answer of a query to the backing store: the promise resolves with
  \<^verbatim>\<open>{ data, error }\<close> (either may be \<^verbatim>\<open>null\<close>) or rejects.
\<close>

datatype 'a Response = Resolved "'a list option" "string option" | Rejected string

datatype WriteResult = WriteOk | WriteError string | WriteRejected string

text \<open>
  The component's state (the \<^verbatim>\<open>useState\<close> cells and the \<^verbatim>\<open>movementInterval\<close> ref of
  lines 766-775) together with the browser state it acts on: the durable store, the
  number of geolocation requests in flight, the interval timers that are running, the
  next timer handle, whether the last run of the movement effect returned a clean-up
  function, a counter that changes with every \<^verbatim>\<open>setProviders\<close> call (the identity of
  the array, which React compares), and the effects so far.
\<close>

record App =
  currentScreen :: Screen
  hotspots :: "Hotspot list"
  providers :: "Provider list"
  selectedProvider :: "Provider option"
  loading :: bool
  showProviderMovement :: bool
  demoMode :: bool
  locationChecked :: bool
  movementInterval :: "nat option"
  localStorage :: "string \<Rightarrow> string option"
  geoPending :: nat
  timers :: "nat list"
  nextTimer :: nat
  movementCleanup :: bool
  providersRev :: nat
  trace :: "Effect list"

definition initialApp :: "(string \<Rightarrow> string option) \<Rightarrow> App" where
  "initialApp store =
     \<lparr> currentScreen = SChecking, hotspots = [], providers = [], selectedProvider = None,
       loading = True, showProviderMovement = False, demoMode = False,
       locationChecked = False, movementInterval = None, localStorage = store,
       geoPending = 0, timers = [], nextTimer = 1, movementCleanup = False,
       providersRev = 0, trace = [] \<rparr>"

datatype AccessState = Checking | Blocked | Granted bool

text \<open>The access verdict the state stands for: the gate screens, else granted with the demo flag.\<close>

definition accessState :: "App \<Rightarrow> AccessState" where
  "accessState s =
     (case currentScreen s of
        SChecking \<Rightarrow> Checking
      | SBlocked \<Rightarrow> Blocked
      | _ \<Rightarrow> Granted (demoMode s))"

section \<open>Browser primitives\<close>

definition emit :: "Effect \<Rightarrow> App \<Rightarrow> App" where
  "emit e s = s\<lparr>trace := trace s @ [e]\<rparr>"

definition console_log :: "string \<Rightarrow> App \<Rightarrow> App" where
  "console_log msg s = emit (ConsoleLog msg) s"

definition console_error :: "string \<Rightarrow> string \<Rightarrow> App \<Rightarrow> App" where
  "console_error msg err s = emit (ConsoleError msg err) s"

definition setItem :: "string \<Rightarrow> string \<Rightarrow> App \<Rightarrow> App" where
  "setItem k v s = emit (StorageSet k v) (s\<lparr>localStorage := (localStorage s)(k \<mapsto> v)\<rparr>)"

definition removeItem :: "string \<Rightarrow> App \<Rightarrow> App" where
  "removeItem k s = emit (StorageRemove k) (s\<lparr>localStorage := (localStorage s)(k := None)\<rparr>)"

definition getCurrentPosition :: "App \<Rightarrow> App" where
  "getCurrentPosition s = emit GeoRequest (s\<lparr>geoPending := Suc (geoPending s)\<rparr>)"

definition setLoading :: "bool \<Rightarrow> App \<Rightarrow> App" where
  "setLoading b s = emit (SetLoading b) (s\<lparr>loading := b\<rparr>)"

definition setProviders :: "Provider list \<Rightarrow> App \<Rightarrow> App" where
  "setProviders ps s = s\<lparr>providers := ps, providersRev := Suc (providersRev s)\<rparr>"

definition clearInterval :: "nat \<Rightarrow> App \<Rightarrow> App" where
  "clearInterval h s = s\<lparr>timers := removeAll h (timers s)\<rparr>"

definition geoRequestCount :: "App \<Rightarrow> nat" where
  "geoRequestCount s = length (filter (\<lambda>e. e = GeoRequest) (trace s))"

section \<open>Geofence\<close>

text \<open>
  The distance of lines 811-821, read in exact arithmetic. The program computes it in
  doubles, which round after every operation, and with \<^verbatim>\<open>Math.sin\<close>,
  \<^verbatim>\<open>Math.cos\<close> and \<^verbatim>\<open>Math.atan2\<close>, whose results the language leaves to the
  implementation; the value below is the one those doubles approximate. Within rounding
  distance of the radius the program's comparison can come out differently, and where
  the rounded term \<open>a\<close> exceeds 1 the program's result is not a number. Nothing that is
  proved in this theory depends on the value of the distance: every statement about the
  access check holds for either verdict of the comparison.

  \<^verbatim>\<open>Math.atan2(y, x)\<close> on real arguments:
\<close>

definition Math_atan2 :: "real \<Rightarrow> real \<Rightarrow> real" where
  "Math_atan2 y x =
     (if 0 < x then arctan (y / x)
      else if x < 0 then (if 0 \<le> y then arctan (y / x) + pi else arctan (y / x) - pi)
      else if 0 < y then pi / 2
      else if y < 0 then - (pi / 2)
      else 0)"

text \<open>\<^verbatim>\<open>calculateDistance\<close>, lines 811-821.\<close>

definition calculateDistance :: "real \<Rightarrow> real \<Rightarrow> real \<Rightarrow> real \<Rightarrow> real" where
  "calculateDistance lat1 lon1 lat2 lon2 =
     (let R = 6371;
          dLat = (lat2 - lat1) * pi / 180;
          dLon = (lon2 - lon1) * pi / 180;
          a = sin (dLat / 2) * sin (dLat / 2) +
              cos (lat1 * pi / 180) * cos (lat2 * pi / 180) *
              sin (dLon / 2) * sin (dLon / 2);
          c = 2 * Math_atan2 (sqrt a) (sqrt (1 - a))
      in R * c)"

definition TRICHY_CENTER :: LatLng where
  "TRICHY_CENTER = \<lparr> lat = 10.8155, lng = 78.7047 \<rparr>"

definition TRICHY_RADIUS_KM :: real where
  "TRICHY_RADIUS_KM = 15"

section \<open>Access controller\<close>

text \<open>
  \<^verbatim>\<open>checkLocation\<close>, lines 824-890, in three parts: the synchronous body, which
  either settles the verdict or calls \<^verbatim>\<open>getCurrentPosition\<close>, and the two callbacks
  it passes to that call.
\<close>

definition checkLocation :: "Env \<Rightarrow> App \<Rightarrow> App" where
  "checkLocation env s =
     (let savedDemoMode = (localStorage s ''jammDemoMode'' = Some ''true'')
      in if demoParam env = Some ''true'' \<or> savedDemoMode then
           (let s1 = (if demoParam env = Some ''true''
                      then setItem ''jammDemoMode'' ''true'' s else s)
            in s1\<lparr>demoMode := True, locationChecked := True, currentScreen := SSplash\<rparr>)
         else if hasGeolocation env then
           getCurrentPosition (console_log ''Requesting location permission...'' s)
         else
           (console_error ''Geolocation not supported'' [] s)
             \<lparr>locationChecked := True, currentScreen := SBlocked\<rparr>)"

definition checkLocation_onSuccess :: "real \<Rightarrow> real \<Rightarrow> App \<Rightarrow> App" where
  "checkLocation_onSuccess latitude longitude s =
     (let s1 = console_log ''Got location:'' s;
          distance = calculateDistance latitude longitude (lat TRICHY_CENTER) (lng TRICHY_CENTER);
          s2 = console_log ''Distance from Trichy center:'' s1
      in if distance \<le> TRICHY_RADIUS_KM then
           (console_log ''User is in Trichy! Granting access.'' s2)
             \<lparr>locationChecked := True, currentScreen := SSplash\<rparr>
         else
           (console_log ''User is outside Trichy service area.'' s2)
             \<lparr>locationChecked := True, currentScreen := SBlocked\<rparr>)"

definition checkLocation_onError :: "nat \<Rightarrow> string \<Rightarrow> App \<Rightarrow> App" where
  "checkLocation_onError code message s =
     (console_log ''Error code:'' (console_error ''Location error:'' message s))
       \<lparr>locationChecked := True, currentScreen := SBlocked\<rparr>"

text \<open>The browser answers a request in flight; with none in flight nothing is called.\<close>

definition geolocationAnswer :: "GeoOutcome \<Rightarrow> App \<Rightarrow> App" where
  "geolocationAnswer outcome s =
     (if geoPending s = 0 then s
      else (case outcome of
              GeoPosition latitude longitude \<Rightarrow>
                checkLocation_onSuccess latitude longitude (s\<lparr>geoPending := geoPending s - 1\<rparr>)
            | GeoFailure code message \<Rightarrow>
                checkLocation_onError code message (s\<lparr>geoPending := geoPending s - 1\<rparr>)))"

text \<open>
  A launch: the mount effect of lines 892-894 runs \<^verbatim>\<open>checkLocation\<close> on the fresh
  state, and the geolocation API then answers the request, if one was made.
\<close>

definition launch :: "Env \<Rightarrow> (string \<Rightarrow> string option) \<Rightarrow> GeoOutcome \<Rightarrow> App" where
  "launch env store outcome = geolocationAnswer outcome (checkLocation env (initialApp store))"

text \<open>\<^verbatim>\<open>enableDemoMode\<close> and \<^verbatim>\<open>exitDemoMode\<close>, lines 1022-1032.\<close>

definition enableDemoMode :: "App \<Rightarrow> App" where
  "enableDemoMode s =
     (setItem ''jammDemoMode'' ''true'' s)\<lparr>demoMode := True, currentScreen := SSplash\<rparr>"

definition exitDemoMode :: "Env \<Rightarrow> App \<Rightarrow> App" where
  "exitDemoMode env s =
     checkLocation env ((removeItem ''jammDemoMode'' s)\<lparr>demoMode := False\<rparr>)"

section \<open>Live feed\<close>

text \<open>
  \<^verbatim>\<open>fetchHotspots\<close> (lines 944-957) and \<^verbatim>\<open>fetchProviders\<close> (lines 959-971), as
  functions of the store's answer. An \<^verbatim>\<open>error\<close> in the answer is thrown and caught by
  the function's own \<^verbatim>\<open>catch\<close>, as a rejection is; only \<^verbatim>\<open>fetchHotspots\<close> has a
  \<^verbatim>\<open>finally\<close> block.
\<close>

definition fetchHotspots :: "Hotspot Response \<Rightarrow> App \<Rightarrow> App" where
  "fetchHotspots r s =
     setLoading False
       (case r of
          Rejected e \<Rightarrow> console_error ''Error fetching hotspots:'' e s
        | Resolved d err \<Rightarrow>
            (case err of
               Some e \<Rightarrow> console_error ''Error fetching hotspots:'' e s
             | None \<Rightarrow> (case d of Some hs \<Rightarrow> s\<lparr>hotspots := hs\<rparr> | None \<Rightarrow> s)))"

definition fetchProviders :: "Provider Response \<Rightarrow> App \<Rightarrow> App" where
  "fetchProviders r s =
     (case r of
        Rejected e \<Rightarrow> console_error ''Error fetching providers:'' e s
      | Resolved d err \<Rightarrow>
          (case err of
             Some e \<Rightarrow> console_error ''Error fetching providers:'' e s
           | None \<Rightarrow> (case d of Some ps \<Rightarrow> setProviders ps s | None \<Rightarrow> s)))"

section \<open>Movement simulator\<close>

text \<open>
  One tick. \<open>db\<close> is the store's answer to the location update of a provider id and
  \<open>rnd\<close> the sequence of \<^verbatim>\<open>Math.random()\<close> draws, two per provider. The loop returns
  the updates it sent and the error that left it, if any; the \<^verbatim>\<open>catch\<close> around the
  whole loop logs that error.

  In the current component (lines 973-990) the answer of the update is not looked at, so
  only a rejection leaves the loop. In the first form (lines 165-185) the loop body ends
  with \<^verbatim>\<open>if (error) throw error\<close>, so an error in the answer leaves it too.
\<close>

fun movementLoop ::
  "(string \<Rightarrow> WriteResult) \<Rightarrow> (nat \<Rightarrow> real) \<Rightarrow> nat \<Rightarrow> Provider list \<Rightarrow> Effect list \<times> string option"
where
  "movementLoop db rnd i [] = ([], None)"
| "movementLoop db rnd i (provider # rest) =
     (let latChange = (rnd i - 0.5) * 0.002;
          lngChange = (rnd (i + 1) - 0.5) * 0.002;
          upd = DbUpdate (p_id provider) (p_latitude provider + latChange)
                         (p_longitude provider + lngChange)
      in case db (p_id provider) of
           WriteRejected e \<Rightarrow> ([upd], Some e)
         | _ \<Rightarrow> (case movementLoop db rnd (i + 2) rest of (es, r) \<Rightarrow> (upd # es, r)))"

fun movementLoop_v1 ::
  "(string \<Rightarrow> WriteResult) \<Rightarrow> (nat \<Rightarrow> real) \<Rightarrow> nat \<Rightarrow> Provider list \<Rightarrow> Effect list \<times> string option"
where
  "movementLoop_v1 db rnd i [] = ([], None)"
| "movementLoop_v1 db rnd i (provider # rest) =
     (let latChange = (rnd i - 0.5) * 0.002;
          lngChange = (rnd (i + 1) - 0.5) * 0.002;
          upd = DbUpdate (p_id provider) (p_latitude provider + latChange)
                         (p_longitude provider + lngChange)
      in case db (p_id provider) of
           WriteRejected e \<Rightarrow> ([upd], Some e)
         | WriteError e \<Rightarrow> ([upd], Some e)
         | WriteOk \<Rightarrow> (case movementLoop_v1 db rnd (i + 2) rest of (es, r) \<Rightarrow> (upd # es, r)))"

definition tickEffects :: "Effect list \<times> string option \<Rightarrow> Effect list" where
  "tickEffects res =
     (case res of
        (es, None) \<Rightarrow> es
      | (es, Some e) \<Rightarrow> es @ [ConsoleError ''Error simulating movement:'' e])"

definition simulateProviderMovement ::
  "(string \<Rightarrow> WriteResult) \<Rightarrow> (nat \<Rightarrow> real) \<Rightarrow> App \<Rightarrow> App" where
  "simulateProviderMovement db rnd s =
     s\<lparr>trace := trace s @ tickEffects (movementLoop db rnd 0 (providers s))\<rparr>"

definition simulateProviderMovement_v1 ::
  "(string \<Rightarrow> WriteResult) \<Rightarrow> (nat \<Rightarrow> real) \<Rightarrow> App \<Rightarrow> App" where
  "simulateProviderMovement_v1 db rnd s =
     s\<lparr>trace := trace s @ tickEffects (movementLoop_v1 db rnd 0 (providers s))\<rparr>"

text \<open>The provider ids a list of effects writes to, in order.\<close>

fun updatedIds :: "Effect list \<Rightarrow> string list" where
  "updatedIds [] = []"
| "updatedIds (DbUpdate i x y # es) = i # updatedIds es"
| "updatedIds (e # es) = updatedIds es"

fun loggedErrors :: "Effect list \<Rightarrow> (string \<times> string) list" where
  "loggedErrors [] = []"
| "loggedErrors (ConsoleError m e # es) = (m, e) # loggedErrors es"
| "loggedErrors (e # es) = loggedErrors es"

text \<open>
  The movement effect of lines 930-942, with dependencies \<^verbatim>\<open>showProviderMovement\<close>
  and \<^verbatim>\<open>providers\<close>. When a dependency has changed React first runs the clean-up the
  previous run returned, if it returned one, then the effect body. The body returns a
  clean-up only when it has started an interval.
\<close>

definition movementEffect :: "App \<Rightarrow> App" where
  "movementEffect s =
     (let s1 = (if movementCleanup s
                then (case movementInterval s of
                        Some h \<Rightarrow> if h \<noteq> 0 then clearInterval h s else s
                      | None \<Rightarrow> s)
                else s)
      in if showProviderMovement s1 \<and> providers s1 \<noteq> [] then
           s1\<lparr>movementInterval := Some (nextTimer s1),
              timers := nextTimer s1 # timers s1,
              nextTimer := Suc (nextTimer s1),
              movementCleanup := True\<rparr>
         else s1\<lparr>movementCleanup := False\<rparr>)"

definition rerender :: "App \<Rightarrow> App \<Rightarrow> App" where
  "rerender old new =
     (if showProviderMovement new \<noteq> showProviderMovement old \<or> providersRev new \<noteq> providersRev old
      then movementEffect new else new)"

section \<open>Screen controller\<close>

text \<open>\<^verbatim>\<open>goToScreen\<close> and \<^verbatim>\<open>bookRide\<close>, lines 999-1011.\<close>

definition goToScreen :: "Screen \<Rightarrow> App \<Rightarrow> App" where
  "goToScreen screen s =
     (if screen = SMap
      then s\<lparr>showProviderMovement := True\<rparr>
      else s\<lparr>showProviderMovement := False\<rparr>)
       \<lparr>currentScreen := screen\<rparr>"

definition bookRide :: "Provider \<Rightarrow> App \<Rightarrow> App" where
  "bookRide provider s = s\<lparr>selectedProvider := Some provider, currentScreen := SConfirmation\<rparr>"

text \<open>
  Everything that can happen to the mounted component: the click handlers the screens
  render, the splash timeout (lines 992-997), the answers of the geolocation API and of
  the store, and a tick of the movement interval.
\<close>

datatype Event =
    GoToScreen Screen
  | BookRide Provider
  | SplashTimeout
  | EnableDemoMode
  | ExitDemoMode
  | GeoAnswer GeoOutcome
  | HotspotsAnswer "Hotspot Response"
  | ProvidersAnswer "Provider Response"
  | MovementTick "string \<Rightarrow> WriteResult" "nat \<Rightarrow> real"

text \<open>
  Which event the current screen offers, read off the \<^verbatim>\<open>onClick\<close> handlers of each
  screen's markup (lines 1034-1773): the demo banner with its exit button is part of every
  screen past the gate while \<^verbatim>\<open>demoMode\<close> holds; a provider can be booked from its
  marker on the map and from the provider list.
\<close>

fun enabled :: "App \<Rightarrow> Event \<Rightarrow> bool" where
  "enabled s (GoToScreen t) =
     (case currentScreen s of
        SOnboarding \<Rightarrow> t = SMap
      | SMap \<Rightarrow> t = SDestination \<or> t = SProviders
      | SDestination \<Rightarrow> t = SMap \<or> t = SProviders
      | SProviders \<Rightarrow> t = SDestination
      | SConfirmation \<Rightarrow> t = SMap
      | _ \<Rightarrow> False)"
| "enabled s (BookRide p) =
     ((currentScreen s = SMap \<or> currentScreen s = SProviders) \<and> p \<in> set (providers s))"
| "enabled s SplashTimeout = (currentScreen s = SSplash)"
| "enabled s EnableDemoMode = (currentScreen s = SBlocked)"
| "enabled s ExitDemoMode =
     (demoMode s \<and> currentScreen s \<noteq> SChecking \<and> currentScreen s \<noteq> SBlocked)"
| "enabled s (GeoAnswer outcome) = (0 < geoPending s)"
| "enabled s (HotspotsAnswer r) = True"
| "enabled s (ProvidersAnswer r) = True"
| "enabled s (MovementTick db rnd) = (timers s \<noteq> [])"

fun handle :: "Env \<Rightarrow> Event \<Rightarrow> App \<Rightarrow> App" where
  "handle env (GoToScreen t) s = goToScreen t s"
| "handle env (BookRide p) s = bookRide p s"
| "handle env SplashTimeout s = s\<lparr>currentScreen := SOnboarding\<rparr>"
| "handle env EnableDemoMode s = enableDemoMode s"
| "handle env ExitDemoMode s = exitDemoMode env s"
| "handle env (GeoAnswer outcome) s = geolocationAnswer outcome s"
| "handle env (HotspotsAnswer r) s = fetchHotspots r s"
| "handle env (ProvidersAnswer r) s = fetchProviders r s"
| "handle env (MovementTick db rnd) s = simulateProviderMovement db rnd s"

definition step :: "Env \<Rightarrow> Event \<Rightarrow> App \<Rightarrow> App option" where
  "step env ev s = (if enabled s ev then Some (rerender s (handle env ev s)) else None)"

fun run :: "Env \<Rightarrow> Event list \<Rightarrow> App \<Rightarrow> App option" where
  "run env [] s = Some s"
| "run env (ev # evs) s = (case step env ev s of None \<Rightarrow> None | Some s' \<Rightarrow> run env evs s')"


section \<open>Hotspot colours\<close>

text \<open>
  \<^verbatim>\<open>getHotspotColor\<close> (lines 1013-1020, and with the same text lines 209-216) is a
  \<^verbatim>\<open>switch\<close> over the status string with a \<^verbatim>\<open>default\<close> branch. The
  \<^verbatim>\<open>Hotspot\<close> interface declares \<^verbatim>\<open>status: string\<close>, so every string is a
  possible argument.
\<close>

definition getHotspotColor :: "string \<Rightarrow> string" where
  "getHotspotColor st =
     (if st = ''high'' then ''#4caf50''
      else if st = ''medium'' then ''#ff9800''
      else if st = ''low'' then ''#f44336''
      else ''#999'')"

section \<open>Notions the claims use\<close>

text \<open>The error a fetch fails with: a rejection, or an \<^verbatim>\<open>error\<close> in the answer.\<close>

fun failure :: "'a Response \<Rightarrow> string option" where
  "failure (Rejected e) = Some e"
| "failure (Resolved d (Some e)) = Some e"
| "failure (Resolved d None) = None"

text \<open>The calls of \<^verbatim>\<open>setLoading\<close> among the effects.\<close>

fun loadingWrites :: "Effect list \<Rightarrow> bool list" where
  "loadingWrites [] = []"
| "loadingWrites (SetLoading b # es) = b # loadingWrites es"
| "loadingWrites (e # es) = loadingWrites es"

text \<open>
  A location write that throws inside the loop of the tick: in the current component a
  rejected one, in the first form also one answered with an error.
\<close>

fun rejects :: "(string \<Rightarrow> WriteResult) \<Rightarrow> Provider \<Rightarrow> bool" where
  "rejects db p = (case db (p_id p) of WriteRejected e \<Rightarrow> True | _ \<Rightarrow> False)"

fun fails :: "(string \<Rightarrow> WriteResult) \<Rightarrow> Provider \<Rightarrow> bool" where
  "fails db p = (case db (p_id p) of WriteOk \<Rightarrow> False | _ \<Rightarrow> True)"

fun errorOf :: "WriteResult \<Rightarrow> string" where
  "errorOf WriteOk = []"
| "errorOf (WriteError e) = e"
| "errorOf (WriteRejected e) = e"

text \<open>The providers up to and including the first one whose write throws.\<close>

fun attempted :: "(Provider \<Rightarrow> bool) \<Rightarrow> Provider list \<Rightarrow> Provider list" where
  "attempted throws [] = []"
| "attempted throws (p # ps) = (if throws p then [p] else p # attempted throws ps)"

text \<open>What the tick logs: the error of the first write that throws, if there is one.\<close>

fun tickLog :: "(string \<Rightarrow> WriteResult) \<Rightarrow> (Provider \<Rightarrow> bool) \<Rightarrow> Provider list \<Rightarrow> (string \<times> string) list" where
  "tickLog db throws [] = []"
| "tickLog db throws (p # ps) =
     (if throws p then [(''Error simulating movement:'', errorOf (db (p_id p)))]
      else tickLog db throws ps)"

text \<open>
  The timers the movement effect has running are accounted for when there is none, or
  there is exactly one, the simulation is switched on, the effect's last run has
  registered its clean-up, and the ref holds the handle of that timer.
\<close>

definition timersTracked :: "App \<Rightarrow> bool" where
  "timersTracked s =
     (0 < nextTimer s \<and>
      (timers s = [] \<or>
       (movementCleanup s \<and> showProviderMovement s \<and>
        (case movementInterval s of None \<Rightarrow> False | Some h \<Rightarrow> 0 < h \<and> timers s = [h]))))"

section \<open>Example data\<close>

definition demoEnv :: Env where
  "demoEnv = \<lparr>demoParam = Some ''true'', hasGeolocation = True\<rparr>"

definition providerA :: Provider where
  "providerA = \<lparr>p_id = ''a'', p_name = ''Arun'', vehicle_number = ''TN45 A 1001'',
                 p_latitude = 10.81, p_longitude = 78.70, seats_available = 2, rating = 4.5,
                 is_online = True, current_route = None\<rparr>"

definition providerB :: Provider where
  "providerB = \<lparr>p_id = ''b'', p_name = ''Bala'', vehicle_number = ''TN45 B 2002'',
                 p_latitude = 10.82, p_longitude = 78.71, seats_available = 3, rating = 4.8,
                 is_online = True, current_route = None\<rparr>"

definition rejectA :: "string \<Rightarrow> WriteResult" where
  "rejectA i = (if i = ''a'' then WriteRejected ''network down'' else WriteOk)"

definition errorA :: "string \<Rightarrow> WriteResult" where
  "errorA i = (if i = ''a'' then WriteError ''row locked'' else WriteOk)"

text \<open>
  A session in demo mode: the launch, then the way to the map with two providers
  fetched, a booking from a marker on the map, and a second booking after going back.
\<close>

definition demoLaunch :: App where
  "demoLaunch = launch demoEnv (\<lambda>k. None) (GeoFailure 1 ''denied'')"

definition toMap :: "Event list" where
  "toMap = [SplashTimeout, GoToScreen SMap,
            ProvidersAnswer (Resolved (Some [providerA, providerB]) None)]"

definition bookFromMap :: "Event list" where
  "bookFromMap = toMap @ [BookRide providerA]"


text \<open>A state holding two providers.\<close>

definition twoProviders :: App where
  "twoProviders = (initialApp (\<lambda>k. None))\<lparr>providers := [providerA, providerB]\<rparr>"

section \<open>Access controller: lemmas\<close>

lemmas browser_defs =
  emit_def console_log_def console_error_def setItem_def removeItem_def
  getCurrentPosition_def setLoading_def setProviders_def clearInterval_def

lemma checkLocation_demo:
  assumes "localStorage s ''jammDemoMode'' = Some ''true'' \<or> demoParam env = Some ''true''"
  shows "currentScreen (checkLocation env s) = SSplash"
    and "demoMode (checkLocation env s)"
    and "locationChecked (checkLocation env s)"
    and "localStorage (checkLocation env s) ''jammDemoMode'' = Some ''true''"
    and "geoPending (checkLocation env s) = geoPending s"
    and "trace (checkLocation env s) =
           trace s @ (if demoParam env = Some ''true''
                      then [StorageSet ''jammDemoMode'' ''true''] else [])"
  using assms by (auto simp: checkLocation_def browser_defs)

lemma checkLocation_request:
  assumes "localStorage s ''jammDemoMode'' \<noteq> Some ''true''" "demoParam env \<noteq> Some ''true''"
    and "hasGeolocation env"
  shows "checkLocation env s =
           s\<lparr>geoPending := Suc (geoPending s),
             trace := trace s @ [ConsoleLog ''Requesting location permission...'', GeoRequest]\<rparr>"
  using assms by (simp add: checkLocation_def browser_defs)

lemma checkLocation_unsupported:
  assumes "localStorage s ''jammDemoMode'' \<noteq> Some ''true''" "demoParam env \<noteq> Some ''true''"
    and "\<not> hasGeolocation env"
  shows "checkLocation env s =
           s\<lparr>trace := trace s @ [ConsoleError ''Geolocation not supported'' []],
             locationChecked := True, currentScreen := SBlocked\<rparr>"
  using assms by (simp add: checkLocation_def browser_defs)

lemma onError_state:
  "currentScreen (checkLocation_onError code message s) = SBlocked"
  "localStorage (checkLocation_onError code message s) = localStorage s"
  by (simp_all add: checkLocation_onError_def browser_defs)

text \<open>
  Without the demo parameter in the URL, leaving demo mode removes the flag and issues
  a fresh geolocation request.
\<close>

lemma exitDemoMode_rechecks:
  assumes "demoParam env \<noteq> Some ''true''" "hasGeolocation env"
  shows "exitDemoMode env s =
           s\<lparr>localStorage := (localStorage s)(''jammDemoMode'' := None),
             demoMode := False,
             geoPending := Suc (geoPending s),
             trace := trace s @ [StorageRemove ''jammDemoMode'',
                                 ConsoleLog ''Requesting location permission...'', GeoRequest]\<rparr>"
  using assms by (simp add: exitDemoMode_def checkLocation_def browser_defs)

section \<open>Live feed: lemmas\<close>

lemma loadingWrites_append: "loadingWrites (xs @ ys) = loadingWrites xs @ loadingWrites ys"
  by (induction xs rule: loadingWrites.induct) simp_all

lemma fetchHotspots_failure:
  assumes "failure r = Some e"
  shows "fetchHotspots r s =
           s\<lparr>trace := trace s @ [ConsoleError ''Error fetching hotspots:'' e, SetLoading False],
             loading := False\<rparr>"
  using assms
  by (cases r rule: failure.cases) (simp_all add: fetchHotspots_def browser_defs)

lemma fetchProviders_failure:
  assumes "failure r = Some e"
  shows "fetchProviders r s =
           s\<lparr>trace := trace s @ [ConsoleError ''Error fetching providers:'' e]\<rparr>"
  using assms
  by (cases r rule: failure.cases) (simp_all add: fetchProviders_def browser_defs)

lemma fetchHotspots_loading:
  "loading (fetchHotspots r s) = False"
  "loadingWrites (trace (fetchHotspots r s)) = loadingWrites (trace s) @ [False]"
  by (simp_all add: fetchHotspots_def browser_defs loadingWrites_append
        split: Response.splits option.splits)

lemma fetchProviders_loading:
  "loading (fetchProviders r s) = loading s"
  "loadingWrites (trace (fetchProviders r s)) = loadingWrites (trace s)"
  by (simp_all add: fetchProviders_def browser_defs loadingWrites_append
        split: Response.splits option.splits)

section \<open>Movement simulator: lemmas\<close>

lemma updatedIds_append: "updatedIds (xs @ ys) = updatedIds xs @ updatedIds ys"
  by (induction xs rule: updatedIds.induct) simp_all

lemma loggedErrors_append: "loggedErrors (xs @ ys) = loggedErrors xs @ loggedErrors ys"
  by (induction xs rule: loggedErrors.induct) simp_all

lemma updatedIds_tickEffects: "updatedIds (tickEffects (es, r)) = updatedIds es"
  by (cases r) (simp_all add: tickEffects_def updatedIds_append)

lemma loggedErrors_tickEffects:
  "loggedErrors (tickEffects (es, r)) =
     loggedErrors es @ (case r of None \<Rightarrow> [] | Some e \<Rightarrow> [(''Error simulating movement:'', e)])"
  by (cases r) (simp_all add: tickEffects_def loggedErrors_append)

lemma movementLoop_sends:
  "updatedIds (fst (movementLoop db rnd i ps)) = map p_id (attempted (rejects db) ps)"
proof (induction ps arbitrary: i)
  case Nil
  show ?case by simp
next
  case (Cons p ps)
  show ?case
    using Cons.IH [of "i + 2"]
    by (cases "db (p_id p)"; cases "movementLoop db rnd (i + 2) ps") (simp_all add: Let_def)
qed

lemma movementLoop_logs:
  "loggedErrors (fst (movementLoop db rnd i ps)) = []
   \<and> (case snd (movementLoop db rnd i ps) of
        None \<Rightarrow> []
      | Some e \<Rightarrow> [(''Error simulating movement:'', e)]) = tickLog db (rejects db) ps"
proof (induction ps arbitrary: i)
  case Nil
  show ?case by simp
next
  case (Cons p ps)
  show ?case
    using Cons.IH [of "i + 2"]
    by (cases "db (p_id p)"; cases "movementLoop db rnd (i + 2) ps") (simp_all add: Let_def)
qed

lemma movementLoop_v1_sends:
  "updatedIds (fst (movementLoop_v1 db rnd i ps)) = map p_id (attempted (fails db) ps)"
proof (induction ps arbitrary: i)
  case Nil
  show ?case by simp
next
  case (Cons p ps)
  show ?case
    using Cons.IH [of "i + 2"]
    by (cases "db (p_id p)"; cases "movementLoop_v1 db rnd (i + 2) ps")
      (simp_all add: Let_def)
qed

lemma movementLoop_v1_logs:
  "loggedErrors (fst (movementLoop_v1 db rnd i ps)) = []
   \<and> (case snd (movementLoop_v1 db rnd i ps) of
        None \<Rightarrow> []
      | Some e \<Rightarrow> [(''Error simulating movement:'', e)]) = tickLog db (fails db) ps"
proof (induction ps arbitrary: i)
  case Nil
  show ?case by simp
next
  case (Cons p ps)
  show ?case
    using Cons.IH [of "i + 2"]
    by (cases "db (p_id p)"; cases "movementLoop_v1 db rnd (i + 2) ps")
      (simp_all add: Let_def)
qed

lemma tick_sends:
  "updatedIds (trace (simulateProviderMovement db rnd s)) =
     updatedIds (trace s) @ map p_id (attempted (rejects db) (providers s))"
  using movementLoop_sends [of db rnd 0 "providers s"]
  by (cases "movementLoop db rnd 0 (providers s)")
    (simp add: simulateProviderMovement_def updatedIds_append updatedIds_tickEffects)

lemma tick_logs:
  "loggedErrors (trace (simulateProviderMovement db rnd s)) =
     loggedErrors (trace s) @ tickLog db (rejects db) (providers s)"
  using movementLoop_logs [of db rnd 0 "providers s"]
  by (cases "movementLoop db rnd 0 (providers s)")
    (simp add: simulateProviderMovement_def loggedErrors_append loggedErrors_tickEffects)

lemma tick_v1_sends:
  "updatedIds (trace (simulateProviderMovement_v1 db rnd s)) =
     updatedIds (trace s) @ map p_id (attempted (fails db) (providers s))"
  using movementLoop_v1_sends [of db rnd 0 "providers s"]
  by (cases "movementLoop_v1 db rnd 0 (providers s)")
    (simp add: simulateProviderMovement_v1_def updatedIds_append updatedIds_tickEffects)

lemma tick_v1_logs:
  "loggedErrors (trace (simulateProviderMovement_v1 db rnd s)) =
     loggedErrors (trace s) @ tickLog db (fails db) (providers s)"
  using movementLoop_v1_logs [of db rnd 0 "providers s"]
  by (cases "movementLoop_v1 db rnd 0 (providers s)")
    (simp add: simulateProviderMovement_v1_def loggedErrors_append loggedErrors_tickEffects)

lemma twoProviders_fields:
  "providers twoProviders = [providerA, providerB]" "trace twoProviders = []"
  "p_id providerA = ''a''" "p_id providerB = ''b''"
  by (simp_all add: twoProviders_def initialApp_def providerA_def providerB_def)

section \<open>Screen controller: lemmas\<close>

lemmas handler_defs =
  goToScreen_def bookRide_def enableDemoMode_def exitDemoMode_def checkLocation_def
  geolocationAnswer_def checkLocation_onSuccess_def checkLocation_onError_def
  fetchHotspots_def fetchProviders_def simulateProviderMovement_def

lemma handle_timer_fields:
  "timers (handle env ev s) = timers s"
  "nextTimer (handle env ev s) = nextTimer s"
  "movementInterval (handle env ev s) = movementInterval s"
  "movementCleanup (handle env ev s) = movementCleanup s"
  by (cases ev;
      simp add: handler_defs browser_defs Let_def
        split: Response.splits option.splits GeoOutcome.splits)+





lemma movementEffect_tracked:
  assumes "0 < nextTimer s"
    and "timers s = [] \<or>
         (movementCleanup s \<and>
          (case movementInterval s of None \<Rightarrow> False | Some h \<Rightarrow> 0 < h \<and> timers s = [h]))"
  shows "timersTracked (movementEffect s)"
  using assms
  by (auto simp: timersTracked_def movementEffect_def clearInterval_def Let_def
        split: option.splits)

lemma movementEffect_off:
  assumes "timersTracked s" "\<not> showProviderMovement new"
    and "timers new = timers s" "movementInterval new = movementInterval s"
    and "movementCleanup new = movementCleanup s"
  shows "timers (movementEffect new) = []"
  using assms
  by (auto simp: timersTracked_def movementEffect_def clearInterval_def Let_def
        split: option.splits)

lemma step_tracked:
  assumes "timersTracked s" "step env ev s = Some s'"
  shows "timersTracked s'"
proof -
  let ?n = "handle env ev s"
  from assms(2) have s': "s' = rerender s ?n"
    by (simp add: step_def split: if_splits)
  show ?thesis
  proof (cases "showProviderMovement ?n \<noteq> showProviderMovement s \<or> providersRev ?n \<noteq> providersRev s")
    case True
    then have "s' = movementEffect ?n" using s' by (simp add: rerender_def)
    moreover have "timersTracked (movementEffect ?n)"
      using assms(1)
      by (intro movementEffect_tracked)
        (auto simp: timersTracked_def handle_timer_fields split: option.splits)
    ultimately show ?thesis by simp
  next
    case False
    then have "s' = ?n" using s' by (simp add: rerender_def)
    moreover from False have "showProviderMovement ?n = showProviderMovement s" by simp
    ultimately show ?thesis
      using assms(1) by (auto simp: timersTracked_def handle_timer_fields split: option.splits)
  qed
qed

lemma run_tracked:
  assumes "timersTracked s" "run env evs s = Some s'"
  shows "timersTracked s'"
  using assms
proof (induction evs arbitrary: s)
  case Nil
  then show ?case by simp
next
  case (Cons ev evs)
  from Cons.prems(2) obtain m where m: "step env ev s = Some m" "run env evs m = Some s'"
    by (auto split: option.splits)
  from Cons.IH [OF step_tracked [OF Cons.prems(1) m(1)] m(2)] show ?case .
qed

lemma handle_launch_fields:
  "timers (launch env store outcome) = []" "nextTimer (launch env store outcome) = 1"
  "selectedProvider (launch env store outcome) = None"
  "currentScreen (launch env store outcome) \<noteq> SConfirmation"
  by (simp_all add: launch_def handler_defs browser_defs initialApp_def Let_def
        split: GeoOutcome.splits)

lemma launch_tracked: "timersTracked (launch env store outcome)"
  by (simp add: timersTracked_def handle_launch_fields)

text \<open>
  Across any number of events at most one movement timer is running, and going to any
  screen other than the map through \<open>goToScreen\<close> leaves none running.
\<close>

lemma at_most_one_timer:
  assumes "run env evs (launch env store outcome) = Some s"
  shows "length (timers s) \<le> 1"
  using run_tracked [OF launch_tracked assms]
  by (auto simp: timersTracked_def split: option.splits)

lemma goToScreen_stops_timer:
  assumes "timersTracked s" "t \<noteq> SMap" "step env (GoToScreen t) s = Some s'"
  shows "timers s' = []"
proof -
  from assms(3) have s': "s' = rerender s (goToScreen t s)"
    by (simp add: step_def split: if_splits)
  show ?thesis
  proof (cases "showProviderMovement s")
    case True
    then have "s' = movementEffect (goToScreen t s)"
      using s' assms(2) by (simp add: rerender_def goToScreen_def)
    moreover have "timers (movementEffect (goToScreen t s)) = []"
      by (rule movementEffect_off [OF assms(1)]) (use assms(2) in \<open>simp_all add: goToScreen_def\<close>)
    ultimately show ?thesis by simp
  next
    case False
    then have "s' = goToScreen t s"
      using s' assms(2) by (simp add: rerender_def goToScreen_def)
    moreover from False assms(1) have "timers s = []" by (auto simp: timersTracked_def)
    ultimately show ?thesis using assms(2) by (simp add: goToScreen_def)
  qed
qed






section \<open>The example session\<close>

lemma demoLaunch_state:
  "demoLaunch =
     (initialApp (\<lambda>k. None))
       \<lparr>currentScreen := SSplash, demoMode := True, locationChecked := True,
        localStorage := (\<lambda>k. None)(''jammDemoMode'' \<mapsto> ''true''),
        trace := [StorageSet ''jammDemoMode'' ''true'']\<rparr>"
  by (simp add: demoLaunch_def demoEnv_def launch_def checkLocation_def geolocationAnswer_def
        browser_defs initialApp_def)

lemma toMap_state:
  "run demoEnv toMap demoLaunch =
     Some ((initialApp (\<lambda>k. None))
       \<lparr>currentScreen := SMap, demoMode := True, locationChecked := True,
        localStorage := (\<lambda>k. None)(''jammDemoMode'' \<mapsto> ''true''),
        trace := [StorageSet ''jammDemoMode'' ''true''],
        showProviderMovement := True, providers := [providerA, providerB],
        providersRev := 1, movementInterval := Some 1, timers := [1], nextTimer := 2,
        movementCleanup := True\<rparr>)"
  by (simp add: demoLaunch_state toMap_def step_def rerender_def movementEffect_def
        goToScreen_def fetchProviders_def setProviders_def initialApp_def)

lemma run_append:
  "run env (xs @ ys) s = (case run env xs s of None \<Rightarrow> None | Some m \<Rightarrow> run env ys m)"
  by (induction xs arbitrary: s) (simp_all split: option.splits)

lemma bookFromMap_state:
  "run demoEnv bookFromMap demoLaunch =
     Some ((initialApp (\<lambda>k. None))
       \<lparr>currentScreen := SConfirmation, demoMode := True, locationChecked := True,
        localStorage := (\<lambda>k. None)(''jammDemoMode'' \<mapsto> ''true''),
        trace := [StorageSet ''jammDemoMode'' ''true''],
        showProviderMovement := True, providers := [providerA, providerB],
        providersRev := 1, movementInterval := Some 1, timers := [1], nextTimer := 2,
        movementCleanup := True, selectedProvider := Some providerA\<rparr>)"
  unfolding bookFromMap_def run_append [of demoEnv toMap] toMap_state
  by (simp add: step_def rerender_def bookRide_def initialApp_def)



lemma tickAfterBooking_state:
  "map_option (\<lambda>s. (currentScreen s, updatedIds (trace s)))
     (run demoEnv (bookFromMap @ [MovementTick (\<lambda>i. WriteOk) (\<lambda>n. 1 / 2)]) demoLaunch) =
   Some (SConfirmation, [''a'', ''b''])"
  unfolding run_append [of demoEnv bookFromMap] bookFromMap_state
  by (simp add: step_def rerender_def simulateProviderMovement_def tickEffects_def
        initialApp_def providerA_def providerB_def Let_def)

section \<open>Claims\<close>

text \<open>
  C2. On every launch in which the durable demo flag is set or the boot-time URL parameter
  asks for demo mode, the access check goes straight to granted access in demo mode: it
  makes no geolocation request, whatever that request would have answered, and afterwards
  the flag is in the durable store.
\<close>

theorem launch_demo_granted:
  assumes "store ''jammDemoMode'' = Some ''true'' \<or> demoParam env = Some ''true''"
  shows "accessState (launch env store outcome) = Granted True
       \<and> launch env store outcome = checkLocation env (initialApp store)
       \<and> geoRequestCount (launch env store outcome) = 0
       \<and> geoPending (launch env store outcome) = 0
       \<and> localStorage (launch env store outcome) ''jammDemoMode'' = Some ''true''"
proof -
  have a: "localStorage (initialApp store) ''jammDemoMode'' = Some ''true''
           \<or> demoParam env = Some ''true''"
    using assms by (simp add: initialApp_def)
  note c = checkLocation_demo [OF a]
  have p: "geoPending (checkLocation env (initialApp store)) = 0"
    using c(5) by (simp add: initialApp_def)
  have l: "launch env store outcome = checkLocation env (initialApp store)"
    by (simp add: launch_def geolocationAnswer_def p)
  show ?thesis
    unfolding l using c p
    by (simp add: accessState_def geoRequestCount_def initialApp_def)
qed

theorem launch_demo_granted_witness:
  "accessState (launch \<lparr>demoParam = Some ''true'', hasGeolocation = True\<rparr> (\<lambda>k. None)
      (GeoPosition 0 0)) = Granted True
   \<and> geoRequestCount (launch \<lparr>demoParam = Some ''true'', hasGeolocation = True\<rparr> (\<lambda>k. None)
      (GeoPosition 0 0)) = 0
   \<and> localStorage (launch \<lparr>demoParam = Some ''true'', hasGeolocation = True\<rparr> (\<lambda>k. None)
      (GeoPosition 0 0)) ''jammDemoMode'' = Some ''true''"
proof -
  have h: "(\<lambda>k. None) ''jammDemoMode'' = Some ''true''
           \<or> demoParam \<lparr>demoParam = Some ''true'', hasGeolocation = True\<rparr> = Some ''true''"
    by simp
  from launch_demo_granted
    [of "\<lambda>k. None" "\<lparr>demoParam = Some ''true'', hasGeolocation = True\<rparr>", OF h]
  show ?thesis by blast
qed

text \<open>
  C3. On a launch with no demo flag in the store and no demo parameter in the URL, every
  failure of geolocation (an error callback with any code, such as permission denied or
  timeout, or a browser without the geolocation API) ends in the blocked state; the
  handlers on this path have no failing branch. From there the demo opt-in grants access
  in demo mode and stores the flag.
\<close>

theorem launch_failure_blocked:
  assumes "store ''jammDemoMode'' \<noteq> Some ''true''" "demoParam env \<noteq> Some ''true''"
    and "\<not> hasGeolocation env \<or> outcome = GeoFailure code message"
  shows "accessState (launch env store outcome) = Blocked
       \<and> accessState (enableDemoMode (launch env store outcome)) = Granted True
       \<and> localStorage (enableDemoMode (launch env store outcome)) ''jammDemoMode'' = Some ''true''"
proof -
  have s0: "localStorage (initialApp store) ''jammDemoMode'' \<noteq> Some ''true''"
    using assms(1) by (simp add: initialApp_def)
  have b: "currentScreen (launch env store outcome) = SBlocked"
  proof (cases "hasGeolocation env")
    case True
    with assms(3) have o: "outcome = GeoFailure code message" by simp
    show ?thesis
      unfolding launch_def checkLocation_request [OF s0 assms(2) True] o
      by (simp add: geolocationAnswer_def onError_state)
  next
    case False
    show ?thesis
      unfolding launch_def checkLocation_unsupported [OF s0 assms(2) False]
      by (simp add: geolocationAnswer_def initialApp_def)
  qed
  show ?thesis
    using b by (simp add: accessState_def enableDemoMode_def browser_defs)
qed

theorem launch_failure_blocked_witness:
  "accessState (launch \<lparr>demoParam = None, hasGeolocation = True\<rparr> (\<lambda>k. None)
      (GeoFailure 1 ''User denied Geolocation'')) = Blocked
   \<and> accessState (enableDemoMode (launch \<lparr>demoParam = None, hasGeolocation = True\<rparr> (\<lambda>k. None)
      (GeoFailure 1 ''User denied Geolocation''))) = Granted True"
  using launch_failure_blocked
    [of "\<lambda>k. None" "\<lparr>demoParam = None, hasGeolocation = True\<rparr>"
        "GeoFailure 1 ''User denied Geolocation''" 1 "''User denied Geolocation''"]
  by simp

text \<open>
  C5, at the input where the code departs from it. On the map, with two providers
  fetched and the movement timer running, a provider is booked from its marker:
  \<open>bookRide\<close> shows the confirmation screen and leaves \<open>showProviderMovement\<close> set, so
  the timer keeps running there, and its next tick writes new locations of both
  providers while the confirmation screen is shown.
\<close>

theorem bookRide_keeps_timer:
  "map_option (\<lambda>s. (currentScreen s, showProviderMovement s, timers s))
     (run demoEnv bookFromMap demoLaunch) = Some (SConfirmation, True, [1])
   \<and> map_option (\<lambda>s. (currentScreen s, updatedIds (trace s)))
       (run demoEnv (bookFromMap @ [MovementTick (\<lambda>i. WriteOk) (\<lambda>n. 1 / 2)]) demoLaunch) =
     Some (SConfirmation, [''a'', ''b''])"
  by (simp add: bookFromMap_state tickAfterBooking_state initialApp_def)




text \<open>
  C7, as stated, fails for the provider fetch: a failed provider fetch leaves the loading
  flag set and never calls \<^verbatim>\<open>setLoading\<close>.
\<close>

theorem fetchProviders_loading_counterexample:
  "loading (fetchProviders (Rejected ''network down'') (initialApp (\<lambda>k. None))) = True
   \<and> loadingWrites (trace (fetchProviders (Rejected ''network down'') (initialApp (\<lambda>k. None)))) = []"
  by (simp add: fetchProviders_def browser_defs initialApp_def)

text \<open>
  C7, amended. A failed hotspot or provider fetch logs the error once and leaves the
  rest of the state, both snapshots included, as it was. A hotspot fetch clears the
  loading flag by exactly one \<^verbatim>\<open>setLoading(false)\<close> whether it succeeds or fails; a
  provider fetch never touches the loading flag.
\<close>

theorem fetch_failure_keeps_snapshot:
  assumes "failure rh = Some eh" "failure rp = Some ep"
  shows "fetchHotspots rh s =
           s\<lparr>trace := trace s @ [ConsoleError ''Error fetching hotspots:'' eh, SetLoading False],
             loading := False\<rparr>
       \<and> fetchProviders rp s =
           s\<lparr>trace := trace s @ [ConsoleError ''Error fetching providers:'' ep]\<rparr>
       \<and> loading (fetchHotspots r s) = False
       \<and> loadingWrites (trace (fetchHotspots r s)) = loadingWrites (trace s) @ [False]
       \<and> loading (fetchProviders r' s) = loading s
       \<and> loadingWrites (trace (fetchProviders r' s)) = loadingWrites (trace s)"
  by (intro conjI)
    (rule fetchHotspots_failure [OF assms(1)] fetchProviders_failure [OF assms(2)]
       fetchHotspots_loading fetchProviders_loading)+

theorem fetch_failure_keeps_snapshot_witness:
  "hotspots (fetchHotspots (Resolved None (Some ''timeout'')) twoProviders) = []
   \<and> providers (fetchProviders (Rejected ''network down'') twoProviders) = [providerA, providerB]
   \<and> loading (fetchHotspots (Resolved None (Some ''timeout'')) twoProviders) = False
   \<and> trace (fetchHotspots (Resolved None (Some ''timeout'')) twoProviders) =
        [ConsoleError ''Error fetching hotspots:'' ''timeout'', SetLoading False]
   \<and> trace (fetchProviders (Rejected ''network down'') twoProviders) =
        [ConsoleError ''Error fetching providers:'' ''network down'']"
proof -
  have h: "failure (Resolved None (Some ''timeout'') :: Hotspot Response) = Some ''timeout''"
    by simp
  have p: "failure (Rejected ''network down'' :: Provider Response) = Some ''network down''"
    by simp
  from fetch_failure_keeps_snapshot [OF h p, of twoProviders]
  show ?thesis by (simp add: twoProviders_def initialApp_def)
qed

text \<open>
  C8, as stated, fails. With providers a and b known and the write for a failing: in the
  current component a rejected write ends the tick before b is written, and a write
  answered with an error is not logged at all; in the first form of the component the
  write answered with an error ends the tick before b is written.
\<close>

theorem tick_abort_counterexample:
  "updatedIds (trace (simulateProviderMovement rejectA (\<lambda>n. 1 / 2) twoProviders)) = [''a'']
   \<and> loggedErrors (trace (simulateProviderMovement errorA (\<lambda>n. 1 / 2) twoProviders)) = []
   \<and> updatedIds (trace (simulateProviderMovement_v1 errorA (\<lambda>n. 1 / 2) twoProviders)) = [''a'']"
  by (simp add: tick_sends tick_logs tick_v1_sends twoProviders_fields rejectA_def errorA_def)

text \<open>
  C8, amended. In every tick the known providers are written in list order up to and
  including the first provider whose write throws, and that error is logged once; the
  providers after it are not written in that tick. In the current component a write
  throws when it is rejected, and a write answered with an error is neither logged nor
  ends the tick; in the first form of the component a write answered with an error
  throws as well. With no throwing write every provider is written and nothing is logged.
\<close>

theorem tick_stops_at_first_throw:
  "updatedIds (trace (simulateProviderMovement db rnd s)) =
     updatedIds (trace s) @ map p_id (attempted (rejects db) (providers s))
   \<and> loggedErrors (trace (simulateProviderMovement db rnd s)) =
     loggedErrors (trace s) @ tickLog db (rejects db) (providers s)
   \<and> updatedIds (trace (simulateProviderMovement_v1 db rnd s)) =
     updatedIds (trace s) @ map p_id (attempted (fails db) (providers s))
   \<and> loggedErrors (trace (simulateProviderMovement_v1 db rnd s)) =
     loggedErrors (trace s) @ tickLog db (fails db) (providers s)"
  by (intro conjI) (rule tick_sends tick_logs tick_v1_sends tick_v1_logs)+

text \<open>
  C9, at the input where the code departs from it. The page was opened with
  \<^verbatim>\<open>?demo=true\<close> and is in demo mode. \<open>exitDemoMode\<close> removes the flag and calls
  \<open>checkLocation\<close>, which reads the URL parameter again, writes the flag back and
  returns to demo mode without a geolocation request.
\<close>

theorem exitDemoMode_url_param:
  "accessState demoLaunch = Granted True
   \<and> accessState (exitDemoMode demoEnv demoLaunch) = Granted True
   \<and> localStorage (exitDemoMode demoEnv demoLaunch) ''jammDemoMode'' = Some ''true''
   \<and> geoRequestCount (exitDemoMode demoEnv demoLaunch) = 0
   \<and> trace (exitDemoMode demoEnv demoLaunch) =
       [StorageSet ''jammDemoMode'' ''true'', StorageRemove ''jammDemoMode'',
        StorageSet ''jammDemoMode'' ''true'']"
  by (simp add: demoLaunch_state exitDemoMode_def checkLocation_def demoEnv_def browser_defs
        accessState_def geoRequestCount_def initialApp_def)

text \<open>
  C10. The status-to-colour mapping is total on arbitrary status strings: every string
  other than \<^verbatim>\<open>high\<close>, \<^verbatim>\<open>medium\<close> and \<^verbatim>\<open>low\<close> gets the default colour
  \<^verbatim>\<open>#999\<close>; the function has no failing branch.
\<close>

theorem getHotspotColor_default:
  "st \<notin> {''high'', ''medium'', ''low''} \<Longrightarrow> getHotspotColor st = ''#999''"
  by (simp add: getHotspotColor_def)

theorem getHotspotColor_default_witness:
  "''offline'' \<notin> {''high'', ''medium'', ''low''} \<and> getHotspotColor ''offline'' = ''#999''"
  using getHotspotColor_default [of "''offline''"] by simp

end
